theory Spec2Isabelle
  imports Main "HOL-Library.Word" "HOL-Library.Monad_Syntax"
begin

unbundle bit_operations_syntax

section \<open>The YM2612 register model (YM2612.py)\<close>

text \<open>
  Python integers are unbounded, so every register field is an \<open>int\<close>; \<open>>>\<close>, \<open><<\<close>,
  \<open>&\<close> and \<open>|\<close> on them are \<open>drop_bit\<close>, \<open>push_bit\<close>, \<open>AND\<close> and \<open>OR\<close> on \<open>int\<close>
  (two's complement with infinitely many sign bits, as in Python).
  Bytes read from a file are \<open>8 word\<close>. Logging and \<open>time.sleep\<close> have no effect on any
  value of the model and are left out.
\<close>

type_synonym byte = "8 word"

subsection \<open>Operators\<close>

text \<open>Class \<open>__YMOperator\<close>. Its constructor takes \<open>op_id\<close> but does not store it.\<close>

record YMOperator =
  detune :: int
  multiple :: int
  total_level :: int
  key_scale :: int
  attack_rate :: int
  amp_mod_on :: int
  decay_rate :: int
  sustain_rate :: int
  sustain_level :: int
  release_rate :: int
  ssg_envelope :: int

definition YMOperator_init :: "int \<Rightarrow> YMOperator" where
  "YMOperator_init op_id =
     \<lparr>detune = 0, multiple = 0, total_level = 0, key_scale = 0, attack_rate = 0,
      amp_mod_on = 0, decay_rate = 0, sustain_rate = 0, sustain_level = 0,
      release_rate = 0, ssg_envelope = 0\<rparr>"

definition get_reg_DETMUL :: "YMOperator \<Rightarrow> int" where
  "get_reg_DETMUL self = (push_bit 4 (detune self) AND 0x70) OR (multiple self AND 0x0F)"

definition get_reg_TL :: "YMOperator \<Rightarrow> int" where
  "get_reg_TL self = total_level self AND 0x7F"

definition get_reg_KSAR :: "YMOperator \<Rightarrow> int" where
  "get_reg_KSAR self = push_bit 6 (key_scale self AND 0x03) OR (attack_rate self AND 0x1F)"

definition get_reg_AMDR :: "YMOperator \<Rightarrow> int" where
  "get_reg_AMDR self = push_bit 7 (amp_mod_on self AND 0x01) OR (decay_rate self AND 0x1F)"

definition get_reg_SR :: "YMOperator \<Rightarrow> int" where
  "get_reg_SR self = sustain_rate self AND 0x1F"

definition get_reg_SLRL :: "YMOperator \<Rightarrow> int" where
  "get_reg_SLRL self = push_bit 4 (sustain_level self AND 0x0F) OR (release_rate self AND 0x0F)"

definition get_reg_SSGEG :: "YMOperator \<Rightarrow> int" where
  "get_reg_SSGEG self = ssg_envelope self AND 0x0F"

subsection \<open>Channels (voices)\<close>

text \<open>
  Class \<open>__YMChannel\<close>. The dict \<open>operator\<close> is created with the keys 0..3 and no
  key is ever added or removed, so it is the list of its four values in key order.
  Operator objects are only ever reached through the channel object that created
  them, so they are stored by value inside it.
\<close>

record YMChannel =
  channel_id :: int
  feedback :: int
  op_algorithm :: int
  audio_out :: int
  phase_mod_sens :: int
  amp_mod_sens :: int
  operator :: "YMOperator list"

text \<open>The constructor with every parameter but \<open>channel_id\<close> at its default; note
  \<open>audio_out=3\<close> in the signature.\<close>

definition YMChannel_init :: "int \<Rightarrow> YMChannel" where
  "YMChannel_init cid =
     \<lparr>channel_id = cid, feedback = 0, op_algorithm = 0, audio_out = 3,
      phase_mod_sens = 0, amp_mod_sens = 0,
      operator = [YMOperator_init 0, YMOperator_init 1, YMOperator_init 2, YMOperator_init 3]\<rparr>"

definition get_reg_LRAMSPMS :: "YMChannel \<Rightarrow> int" where
  "get_reg_LRAMSPMS self =
     push_bit 6 (audio_out self AND 0x03) OR push_bit 4 (amp_mod_sens self AND 0x03)
       OR (phase_mod_sens self AND 0x07)"

definition get_reg_FBALG :: "YMChannel \<Rightarrow> int" where
  "get_reg_FBALG self = push_bit 3 (feedback self AND 0x03) OR (op_algorithm self AND 0x07)"

subsection \<open>The chip\<close>

text \<open>
  Class \<open>YM2612Chip\<close>. Channel objects are mutable and \<open>load_vgi_file\<close> stores one
  object under several keys, so the chip holds an object store \<open>objs\<close> and the dict
  \<open>channel\<close> maps a key to an address in it: \<open>channel\<close> is the list of the addresses
  under the keys 0..5 (the dict is created with these keys and only ever assigned
  at them).

  \<open>midiout\<close> is \<open>None\<close> when no MIDI interface was given (Python's \<open>None\<close>, which is
  falsy) and otherwise holds the messages passed to \<open>send_message\<close> so far, oldest
  first.

  \<open>load_vgi_file\<close> assigns \<open>self.op_algorithm\<close>, \<open>self.feedback\<close>, \<open>self.audio_out\<close>,
  \<open>self.amp_mod_sens\<close> and \<open>self.phase_mod_sens\<close> on the chip object itself;
  these attributes do not exist before the first such assignment (\<open>None\<close>).
\<close>

record YM2612Chip =
  midiout :: "int list list option"
  vendor_id :: int
  lfo_on :: int
  lfo_freq :: int
  channel :: "nat list"
  objs :: "YMChannel list"
  chip_op_algorithm :: "int option"
  chip_feedback :: "int option"
  chip_audio_out :: "int option"
  chip_amp_mod_sens :: "int option"
  chip_phase_mod_sens :: "int option"

definition YM2612Chip_init :: "int list list option \<Rightarrow> int \<Rightarrow> int \<Rightarrow> YM2612Chip" where
  "YM2612Chip_init midi_out lfo_on_arg lfo_freq_arg =
     \<lparr>midiout = midi_out, vendor_id = 0x001234,
      lfo_on = lfo_on_arg, lfo_freq = lfo_freq_arg,
      channel = [0, 1, 2, 3, 4, 5],
      objs = [YMChannel_init 0, YMChannel_init 1, YMChannel_init 2,
              YMChannel_init 3, YMChannel_init 4, YMChannel_init 5],
      chip_op_algorithm = None, chip_feedback = None, chip_audio_out = None,
      chip_amp_mod_sens = None, chip_phase_mod_sens = None\<rparr>"

text \<open>\<open>self.channel[ch_id]\<close>: the object stored under key \<open>ch_id\<close>.\<close>

definition chan :: "YM2612Chip \<Rightarrow> nat \<Rightarrow> YMChannel" where
  "chan self ch_id = objs self ! (channel self ! ch_id)"

text \<open>
  The representation invariant of a chip: six keys, each holding the address of
  an allocated channel object, and four operators in every channel object. The
  constructor establishes it and \<open>load_vgi_file\<close> keeps it; the SysEx commands
  change \<open>midiout\<close> only.
\<close>

definition chip_ok :: "YM2612Chip \<Rightarrow> bool" where
  "chip_ok self \<longleftrightarrow>
     length (channel self) = 6 \<and> list_all (\<lambda>a. a < length (objs self)) (channel self)
     \<and> list_all (\<lambda>ch. length (operator ch) = 4) (objs self)"

subsection \<open>Flattening the registers\<close>

text \<open>\<open>__get_reg_values_array\<close>: both loops append to \<open>reg_array\<close>.\<close>

definition append_operator :: "YMOperator \<Rightarrow> int list \<Rightarrow> int list" where
  "append_operator op reg_array =
     reg_array @ [detune op] @ [multiple op] @ [total_level op] @ [key_scale op]
       @ [attack_rate op] @ [amp_mod_on op] @ [decay_rate op] @ [sustain_rate op]
       @ [sustain_level op] @ [release_rate op] @ [ssg_envelope op]"

definition append_channel :: "YMChannel \<Rightarrow> int list \<Rightarrow> int list" where
  "append_channel ch reg_array =
     fold (\<lambda>op_id acc. append_operator (operator ch ! op_id) acc) [0..<4]
       (reg_array @ [feedback ch] @ [op_algorithm ch] @ [audio_out ch]
          @ [amp_mod_sens ch] @ [phase_mod_sens ch])"

definition get_reg_values_array :: "YM2612Chip \<Rightarrow> int list" where
  "get_reg_values_array self =
     fold (\<lambda>ch_id acc. append_channel (chan self ch_id) acc) [0..<6]
       ([] @ [lfo_on self] @ [lfo_freq self])"

subsection \<open>Attribute assignment through a channel key\<close>

text \<open>
  \<open>self.channel[ch_id].attr = v\<close>: the object stored under key \<open>ch_id\<close> is changed in
  place, whatever other keys hold it; \<open>f\<close> is the change of the object.
\<close>

definition assign_channel :: "YM2612Chip \<Rightarrow> nat \<Rightarrow> (YMChannel \<Rightarrow> YMChannel) \<Rightarrow> YM2612Chip" where
  "assign_channel self ch_id f =
     self\<lparr>objs := (objs self)[channel self ! ch_id := f (chan self ch_id)]\<rparr>"

text \<open>\<open>self.channel[ch_id].operator[op_id].attr = v\<close>, with \<open>g\<close> the change of the operator.\<close>

definition assign_operator ::
  "YM2612Chip \<Rightarrow> nat \<Rightarrow> nat \<Rightarrow> (YMOperator \<Rightarrow> YMOperator) \<Rightarrow> YM2612Chip" where
  "assign_operator self ch_id op_id g =
     assign_channel self ch_id (\<lambda>ch. ch\<lparr>operator := (operator ch)[op_id := g (operator ch ! op_id)]\<rparr>)"

section \<open>SysEx commands\<close>

definition YM_MAX_NUM_USER_PRESETS :: int where "YM_MAX_NUM_USER_PRESETS = 5"
definition YM_MAX_NUM_DEFAULT_PRESETS :: int where "YM_MAX_NUM_DEFAULT_PRESETS = 8"
definition YM_SYSEX_CMD_SET_REG :: int where "YM_SYSEX_CMD_SET_REG = 0"
definition YM_SYSEX_CMD_SAVE_PRESET :: int where "YM_SYSEX_CMD_SAVE_PRESET = 1"
definition YM_SYSEX_CMD_LOAD_PRESET :: int where "YM_SYSEX_CMD_LOAD_PRESET = 2"
definition YM_SYSEX_CMD_LOAD_DEFAULT_PRESET :: int where "YM_SYSEX_CMD_LOAD_DEFAULT_PRESET = 3"

text \<open>
  \<open>__send_midi_cmd\<close> returns \<open>retval\<close>; the second component is the chip afterwards,
  whose \<open>midiout\<close> has received the frame. What the MIDI library does with the frame
  is outside the model.
\<close>

definition send_midi_cmd :: "YM2612Chip \<Rightarrow> int \<Rightarrow> int list \<Rightarrow> bool \<times> YM2612Chip" where
  "send_midi_cmd self midi_cmd cmd_payload =
     (case midiout self of
        Some sent \<Rightarrow>
          (let sysex_cmd = midi_cmd;
               sysex_data = [] @ [0xF0]
                 @ [drop_bit 16 (vendor_id self) AND 0xFF]
                 @ [drop_bit 8 (vendor_id self) AND 0xFF]
                 @ [drop_bit 0 (vendor_id self) AND 0xFF]
                 @ [sysex_cmd] @ cmd_payload @ [0xF7]
           in (True, self\<lparr>midiout := Some (sent @ [sysex_data])\<rparr>))
      | None \<Rightarrow> (False, self))"

definition midi_set_reg_values :: "YM2612Chip \<Rightarrow> bool \<times> YM2612Chip" where
  "midi_set_reg_values self =
     send_midi_cmd self YM_SYSEX_CMD_SET_REG ([] @ get_reg_values_array self)"

definition midi_load_default_preset :: "YM2612Chip \<Rightarrow> int \<Rightarrow> bool \<times> YM2612Chip" where
  "midi_load_default_preset self preset_pos =
     (if preset_pos < YM_MAX_NUM_DEFAULT_PRESETS
      then send_midi_cmd self YM_SYSEX_CMD_LOAD_DEFAULT_PRESET ([] @ [preset_pos])
      else (False, self))"

definition midi_load_preset :: "YM2612Chip \<Rightarrow> int \<Rightarrow> bool \<times> YM2612Chip" where
  "midi_load_preset self preset_pos =
     (if preset_pos < YM_MAX_NUM_USER_PRESETS
      then send_midi_cmd self YM_SYSEX_CMD_LOAD_PRESET ([] @ [preset_pos])
      else (False, self))"

subsection \<open>The preset name\<close>

text \<open>
  A Python \<open>str\<close> is a sequence of Unicode code points. \<open>"{:<15}".format(s)\<close> pads
  \<open>s\<close> on the right with spaces up to 15 code points and leaves a longer \<open>s\<close> as it
  is. \<open>str.encode()\<close> is UTF-8 and raises \<open>UnicodeEncodeError\<close> on a surrogate code
  point.
\<close>

type_synonym pystr = "nat list"

datatype exn = UnicodeEncodeError

definition format_ljust15 :: "pystr \<Rightarrow> pystr" where
  "format_ljust15 s = s @ replicate (15 - length s) 32"

definition encode_char :: "nat \<Rightarrow> exn + int list" where
  "encode_char cp =
     (if cp < 0x80 then Inr [int cp]
      else if cp < 0x800 then Inr [int (0xC0 + cp div 64), int (0x80 + cp mod 64)]
      else if 0xD800 \<le> cp \<and> cp \<le> 0xDFFF then Inl UnicodeEncodeError
      else if cp < 0x10000 then
        Inr [int (0xE0 + cp div 4096), int (0x80 + cp div 64 mod 64), int (0x80 + cp mod 64)]
      else
        Inr [int (0xF0 + cp div 262144), int (0x80 + cp div 4096 mod 64),
             int (0x80 + cp div 64 mod 64), int (0x80 + cp mod 64)])"

fun encode :: "pystr \<Rightarrow> exn + int list" where
  "encode [] = Inr []"
| "encode (cp # s) =
     (case encode_char cp of
        Inl e \<Rightarrow> Inl e
      | Inr bs \<Rightarrow> (case encode s of Inl e \<Rightarrow> Inl e | Inr rest \<Rightarrow> Inr (bs @ rest)))"

text \<open>\<open>midi_save_preset\<close>: \<open>Inl\<close> is an exception raised to the caller.\<close>

definition midi_save_preset :: "YM2612Chip \<Rightarrow> int \<Rightarrow> pystr \<Rightarrow> exn + bool \<times> YM2612Chip" where
  "midi_save_preset self preset_pos preset_name =
     (if preset_pos < YM_MAX_NUM_USER_PRESETS then
        (let cmd_payload = [] @ [preset_pos];
             format_preset_name = format_ljust15 preset_name
         in case encode format_preset_name of
              Inl e \<Rightarrow> Inl e
            | Inr preset_name_bytes \<Rightarrow>
                (let cmd_payload =
                       fold (\<lambda>str_ch acc. acc @ [drop_bit 0 str_ch AND 0x0F]
                                               @ [drop_bit 4 str_ch AND 0x0F])
                         preset_name_bytes cmd_payload;
                     cmd_payload = cmd_payload @ get_reg_values_array self
                 in Inr (send_midi_cmd self YM_SYSEX_CMD_SAVE_PRESET cmd_payload)))
      else Inr (False, self))"

section \<open>Loading a VGI file\<close>

text \<open>
  \<open>__read_byte\<close> on the reopened file: \<open>pos\<close> is the file position. At the end of the
  file \<open>read(1)\<close> returns nothing and \<open>struct.unpack\<close> raises, which is \<open>None\<close> here.
\<close>

definition read_byte :: "byte list \<Rightarrow> nat \<Rightarrow> (int \<times> nat) option" where
  "read_byte byte_data pos =
     (if pos < length byte_data then Some (uint (byte_data ! pos), pos + 1) else None)"

fun for_each :: "('a \<Rightarrow> 's \<Rightarrow> 's option) \<Rightarrow> 'a list \<Rightarrow> 's \<Rightarrow> 's option" where
  "for_each body [] s = Some s"
| "for_each body (x # xs) s = body x s \<bind> for_each body xs"

text \<open>The body of the operator loop: ten bytes into \<open>self.channel[0].operator[operator_id]\<close>.\<close>

definition load_operator ::
  "byte list \<Rightarrow> nat \<Rightarrow> YM2612Chip \<times> nat \<Rightarrow> (YM2612Chip \<times> nat) option" where
  "load_operator byte_data operator_id s =
     (case s of (self, pos) \<Rightarrow> do {
        (b, pos) \<leftarrow> read_byte byte_data pos;
        let self = assign_operator self 0 operator_id (\<lambda>op. op\<lparr>multiple := b\<rparr>);
        (b, pos) \<leftarrow> read_byte byte_data pos;
        let self = assign_operator self 0 operator_id (\<lambda>op. op\<lparr>detune := b\<rparr>);
        (b, pos) \<leftarrow> read_byte byte_data pos;
        let self = assign_operator self 0 operator_id (\<lambda>op. op\<lparr>total_level := b\<rparr>);
        (b, pos) \<leftarrow> read_byte byte_data pos;
        let self = assign_operator self 0 operator_id (\<lambda>op. op\<lparr>key_scale := b\<rparr>);
        (b, pos) \<leftarrow> read_byte byte_data pos;
        let self = assign_operator self 0 operator_id (\<lambda>op. op\<lparr>attack_rate := b\<rparr>);
        (reg, pos) \<leftarrow> read_byte byte_data pos;
        let self = assign_operator self 0 operator_id (\<lambda>op. op\<lparr>amp_mod_on := drop_bit 7 reg AND 0x01\<rparr>);
        let self = assign_operator self 0 operator_id (\<lambda>op. op\<lparr>decay_rate := drop_bit 0 reg AND 0x1F\<rparr>);
        (b, pos) \<leftarrow> read_byte byte_data pos;
        let self = assign_operator self 0 operator_id (\<lambda>op. op\<lparr>sustain_rate := b\<rparr>);
        (b, pos) \<leftarrow> read_byte byte_data pos;
        let self = assign_operator self 0 operator_id (\<lambda>op. op\<lparr>release_rate := b\<rparr>);
        (b, pos) \<leftarrow> read_byte byte_data pos;
        let self = assign_operator self 0 operator_id (\<lambda>op. op\<lparr>sustain_level := b\<rparr>);
        (b, pos) \<leftarrow> read_byte byte_data pos;
        let self = assign_operator self 0 operator_id (\<lambda>op. op\<lparr>ssg_envelope := b\<rparr>);
        Some (self, pos)
      })"

text \<open>The body of the last loop: key \<open>channel_id + 1\<close> is given the object of key 0,
  and then that object's \<open>channel_id\<close> is set.\<close>

definition copy_channel :: "nat \<Rightarrow> YM2612Chip \<Rightarrow> YM2612Chip" where
  "copy_channel cid self =
     (let self = self\<lparr>channel := (channel self)[cid + 1 := channel self ! 0]\<rparr>
      in assign_channel self (cid + 1) (\<lambda>ch. ch\<lparr>channel_id := int cid + 1\<rparr>))"

text \<open>
  \<open>load_vgi_file\<close>, given the content of the file. The Python function returns
  nothing on either branch, so the result is the chip afterwards; \<open>None\<close> is an
  exception of \<open>__read_byte\<close>.
\<close>

definition load_vgi_file :: "byte list \<Rightarrow> YM2612Chip \<Rightarrow> YM2612Chip option" where
  "load_vgi_file byte_data self =
     (if length byte_data = 43 then do {
        let pos = 0;
        (b, pos) \<leftarrow> read_byte byte_data pos;
        let self = self\<lparr>chip_op_algorithm := Some b\<rparr>;
        (b, pos) \<leftarrow> read_byte byte_data pos;
        let self = self\<lparr>chip_feedback := Some b\<rparr>;
        (reg, pos) \<leftarrow> read_byte byte_data pos;
        let self = self\<lparr>chip_audio_out := Some (drop_bit 6 reg AND 0x03)\<rparr>;
        let self = self\<lparr>chip_amp_mod_sens := Some (drop_bit 4 reg AND 0x03)\<rparr>;
        let self = self\<lparr>chip_phase_mod_sens := Some (drop_bit 0 reg AND 0x07)\<rparr>;
        (self, pos) \<leftarrow> for_each (load_operator byte_data) [0..<4] (self, pos);
        Some (fold copy_channel [0..<5] self)
      }
      else Some self)"

section \<open>The register array as the specification describes it\<close>

text \<open>
  The specification's words for the flattened array: the two LFO fields, then for
  each voice its five voice-level fields followed by the eleven fields of each of
  its operators 0..3.
\<close>

definition operator_fields :: "YMOperator \<Rightarrow> int list" where
  "operator_fields op =
     [detune op, multiple op, total_level op, key_scale op, attack_rate op, amp_mod_on op,
      decay_rate op, sustain_rate op, sustain_level op, release_rate op, ssg_envelope op]"

definition voice_fields :: "YMChannel \<Rightarrow> int list" where
  "voice_fields ch =
     [feedback ch, op_algorithm ch, audio_out ch, amp_mod_sens ch, phase_mod_sens ch]"

definition voice_block :: "YMChannel \<Rightarrow> int list" where
  "voice_block ch =
     voice_fields ch @ concat (map (\<lambda>op_id. operator_fields (operator ch ! op_id)) [0..<4])"

definition flatten_spec :: "YM2612Chip \<Rightarrow> int list" where
  "flatten_spec self =
     [lfo_on self, lfo_freq self]
       @ concat (map (\<lambda>ch_id. voice_block (chan self ch_id)) [0..<6])"

text \<open>
  The specification's words for the name bytes: the name left-justified, padded
  or truncated to exactly 15 characters, each character byte sent as its low
  nibble and then its high nibble.
\<close>

definition name_payload_spec :: "pystr \<Rightarrow> int list" where
  "name_payload_spec preset_name =
     concat (map (\<lambda>b. [b AND 0x0F, drop_bit 4 b AND 0x0F])
       (map int (take 15 (preset_name @ replicate 15 32))))"

subsection \<open>The VGI layout\<close>

text \<open>
  The specification's words for one operator block of a VGI file, ten bytes from
  position \<open>pos\<close>: multiple, detune, total_level, key_scale, attack_rate, one byte
  with amp_mod_on in bit 7 and decay_rate in bits 4:0, sustain_rate,
  release_rate, sustain_level, ssg_envelope.
\<close>

definition decode_operator :: "byte list \<Rightarrow> nat \<Rightarrow> YMOperator \<Rightarrow> YMOperator" where
  "decode_operator byte_data pos = (\<lambda>op.
     op\<lparr>multiple := uint (byte_data ! pos),
        detune := uint (byte_data ! (pos + 1)),
        total_level := uint (byte_data ! (pos + 2)),
        key_scale := uint (byte_data ! (pos + 3)),
        attack_rate := uint (byte_data ! (pos + 4)),
        amp_mod_on := drop_bit 7 (uint (byte_data ! (pos + 5))) AND 0x01,
        decay_rate := uint (byte_data ! (pos + 5)) AND 0x1F,
        sustain_rate := uint (byte_data ! (pos + 6)),
        release_rate := uint (byte_data ! (pos + 7)),
        sustain_level := uint (byte_data ! (pos + 8)),
        ssg_envelope := uint (byte_data ! (pos + 9))\<rparr>)"

text \<open>
  The assignments of \<open>load_vgi_file\<close> on a buffer of 43 bytes, with every read
  resolved to the byte it returns.
\<close>

definition loaded :: "byte list \<Rightarrow> YM2612Chip \<Rightarrow> YM2612Chip" where
  "loaded byte_data self =
     fold copy_channel [0..<5]
       (assign_operator (assign_operator (assign_operator (assign_operator
          (self\<lparr>chip_op_algorithm := Some (uint (byte_data ! 0)),
                chip_feedback := Some (uint (byte_data ! 1)),
                chip_audio_out := Some (drop_bit 6 (uint (byte_data ! 2)) AND 0x03),
                chip_amp_mod_sens := Some (drop_bit 4 (uint (byte_data ! 2)) AND 0x03),
                chip_phase_mod_sens := Some (uint (byte_data ! 2) AND 0x07)\<rparr>)
          0 0 (decode_operator byte_data 3))
          0 1 (decode_operator byte_data 13))
          0 2 (decode_operator byte_data 23))
          0 3 (decode_operator byte_data 33))"

text \<open>The chip that a fresh chip becomes when a file of 43 zero bytes is loaded.\<close>

definition zero_loaded :: YM2612Chip where
  "zero_loaded = (YM2612Chip_init None 0 0)
     \<lparr>channel := [0, 0, 0, 0, 0, 0],
      objs := [(YMChannel_init 0)\<lparr>channel_id := 5\<rparr>, YMChannel_init 1, YMChannel_init 2,
               YMChannel_init 3, YMChannel_init 4, YMChannel_init 5],
      chip_op_algorithm := Some 0, chip_feedback := Some 0, chip_audio_out := Some 0,
      chip_amp_mod_sens := Some 0, chip_phase_mod_sens := Some 0\<rparr>"

section \<open>Properties of the register array\<close>

lemma append_operator_eq: "append_operator op acc = acc @ operator_fields op"
  by (simp add: append_operator_def operator_fields_def)

lemma fold_append_blocks: "fold (\<lambda>x acc. acc @ f x) xs acc = acc @ concat (map f xs)"
  by (induction xs arbitrary: acc) simp_all

lemma append_channel_eq: "append_channel ch acc = acc @ voice_block ch"
  by (simp add: append_channel_def append_operator_eq fold_append_blocks voice_block_def
      voice_fields_def)

lemma length_operator_fields: "length (operator_fields op) = 11"
  by (simp add: operator_fields_def)

lemma length_concat_const:
  "(\<And>x. length (f x) = k) \<Longrightarrow> length (concat (map f xs)) = k * length xs"
  by (induction xs) simp_all

lemma length_voice_block: "length (voice_block ch) = 49"
  by (simp add: voice_block_def voice_fields_def length_concat_const[where k=11]
      length_operator_fields)

lemma get_reg_values_array_eq: "get_reg_values_array self = flatten_spec self"
  by (simp add: get_reg_values_array_def flatten_spec_def append_channel_eq fold_append_blocks)

lemma length_flatten_spec: "length (flatten_spec self) = 296"
  by (simp add: flatten_spec_def length_concat_const[where k=49] length_voice_block)

text \<open>
  C6 (as amended). For every chip, whatever its field values, the array built by
  \<open>__get_reg_values_array\<close> is the two LFO fields followed, for each of the six
  voices in order, by its five voice-level fields and the eleven raw fields of
  each of its operators 0..3; it has 2 + 6 * (5 + 4 * 11) = 296 entries.
\<close>

theorem flatten_layout_and_length:
  "get_reg_values_array self = flatten_spec self
   \<and> length (get_reg_values_array self) = 2 + 6 * (5 + 4 * 11)
   \<and> length (get_reg_values_array self) = 296"
  by (simp add: get_reg_values_array_eq length_flatten_spec)

text \<open>C6 as stated fails: the array of a freshly constructed chip does not have 266 entries.\<close>

theorem flatten_length_not_266:
  "length (get_reg_values_array (YM2612Chip_init None 0 0)) \<noteq> 266"
  by (simp add: get_reg_values_array_eq length_flatten_spec)

section \<open>Packing the operator registers\<close>

lemma mask_detune:
  "get_reg_DETMUL (op\<lparr>detune := v\<rparr>) = get_reg_DETMUL (op\<lparr>detune := v AND 0x07\<rparr>)"
  by (simp add: get_reg_DETMUL_def)

lemma wrap_detune:
  "get_reg_DETMUL (op\<lparr>detune := 8\<rparr>) = get_reg_DETMUL (op\<lparr>detune := 0\<rparr>)"
  by (simp add: get_reg_DETMUL_def)

lemma mask_multiple:
  "get_reg_DETMUL (op\<lparr>multiple := v\<rparr>) = get_reg_DETMUL (op\<lparr>multiple := v AND 0x0F\<rparr>)"
  by (simp add: get_reg_DETMUL_def)

lemma wrap_multiple:
  "get_reg_DETMUL (op\<lparr>multiple := 16\<rparr>) = get_reg_DETMUL (op\<lparr>multiple := 0\<rparr>)"
  by (simp add: get_reg_DETMUL_def)

lemma mask_total_level:
  "get_reg_TL (op\<lparr>total_level := v\<rparr>) = get_reg_TL (op\<lparr>total_level := v AND 0x7F\<rparr>)"
  by (simp add: get_reg_TL_def)

lemma wrap_total_level:
  "get_reg_TL (op\<lparr>total_level := 128\<rparr>) = get_reg_TL (op\<lparr>total_level := 0\<rparr>)"
  by (simp add: get_reg_TL_def)

lemma mask_key_scale:
  "get_reg_KSAR (op\<lparr>key_scale := v\<rparr>) = get_reg_KSAR (op\<lparr>key_scale := v AND 0x03\<rparr>)"
  by (simp add: get_reg_KSAR_def)

lemma wrap_key_scale:
  "get_reg_KSAR (op\<lparr>key_scale := 4\<rparr>) = get_reg_KSAR (op\<lparr>key_scale := 0\<rparr>)"
  by (simp add: get_reg_KSAR_def)

lemma mask_attack_rate:
  "get_reg_KSAR (op\<lparr>attack_rate := v\<rparr>) = get_reg_KSAR (op\<lparr>attack_rate := v AND 0x1F\<rparr>)"
  by (simp add: get_reg_KSAR_def)

lemma wrap_attack_rate:
  "get_reg_KSAR (op\<lparr>attack_rate := 32\<rparr>) = get_reg_KSAR (op\<lparr>attack_rate := 0\<rparr>)"
  by (simp add: get_reg_KSAR_def)

lemma mask_amp_mod_on:
  "get_reg_AMDR (op\<lparr>amp_mod_on := v\<rparr>) = get_reg_AMDR (op\<lparr>amp_mod_on := v AND 0x01\<rparr>)"
  by (simp add: get_reg_AMDR_def)

lemma wrap_amp_mod_on:
  "get_reg_AMDR (op\<lparr>amp_mod_on := 2\<rparr>) = get_reg_AMDR (op\<lparr>amp_mod_on := 0\<rparr>)"
  by (simp add: get_reg_AMDR_def)

lemma mask_decay_rate:
  "get_reg_AMDR (op\<lparr>decay_rate := v\<rparr>) = get_reg_AMDR (op\<lparr>decay_rate := v AND 0x1F\<rparr>)"
  by (simp add: get_reg_AMDR_def)

lemma wrap_decay_rate:
  "get_reg_AMDR (op\<lparr>decay_rate := 32\<rparr>) = get_reg_AMDR (op\<lparr>decay_rate := 0\<rparr>)"
  by (simp add: get_reg_AMDR_def)

lemma mask_sustain_rate:
  "get_reg_SR (op\<lparr>sustain_rate := v\<rparr>) = get_reg_SR (op\<lparr>sustain_rate := v AND 0x1F\<rparr>)"
  by (simp add: get_reg_SR_def)

lemma wrap_sustain_rate:
  "get_reg_SR (op\<lparr>sustain_rate := 32\<rparr>) = get_reg_SR (op\<lparr>sustain_rate := 0\<rparr>)"
  by (simp add: get_reg_SR_def)

lemma mask_sustain_level:
  "get_reg_SLRL (op\<lparr>sustain_level := v\<rparr>) = get_reg_SLRL (op\<lparr>sustain_level := v AND 0x0F\<rparr>)"
  by (simp add: get_reg_SLRL_def)

lemma wrap_sustain_level:
  "get_reg_SLRL (op\<lparr>sustain_level := 16\<rparr>) = get_reg_SLRL (op\<lparr>sustain_level := 0\<rparr>)"
  by (simp add: get_reg_SLRL_def)

lemma mask_release_rate:
  "get_reg_SLRL (op\<lparr>release_rate := v\<rparr>) = get_reg_SLRL (op\<lparr>release_rate := v AND 0x0F\<rparr>)"
  by (simp add: get_reg_SLRL_def)

lemma wrap_release_rate:
  "get_reg_SLRL (op\<lparr>release_rate := 16\<rparr>) = get_reg_SLRL (op\<lparr>release_rate := 0\<rparr>)"
  by (simp add: get_reg_SLRL_def)

lemma mask_ssg_envelope:
  "get_reg_SSGEG (op\<lparr>ssg_envelope := v\<rparr>) = get_reg_SSGEG (op\<lparr>ssg_envelope := v AND 0x0F\<rparr>)"
  by (simp add: get_reg_SSGEG_def)

lemma wrap_ssg_envelope:
  "get_reg_SSGEG (op\<lparr>ssg_envelope := 16\<rparr>) = get_reg_SSGEG (op\<lparr>ssg_envelope := 0\<rparr>)"
  by (simp add: get_reg_SSGEG_def)

text \<open>
  C7. For each of the seven operator register bytes and each field it holds,
  packing with the field set to any integer \<open>v\<close> gives the same byte as packing
  with the field set to \<open>v\<close> masked to the field's width (detune 3 bits, multiple 4,
  total_level 7, key_scale 2, attack_rate 5, amp_mod_on 1, decay_rate 5,
  sustain_rate 5, sustain_level 4, release_rate 4, ssg_envelope 4); so the
  value one above the field's maximum packs like 0, for instance detune 8 like
  detune 0. The packing functions are total: no value is rejected.
\<close>

theorem pack_masks_fields:
  "get_reg_DETMUL (op\<lparr>detune := v\<rparr>) = get_reg_DETMUL (op\<lparr>detune := v AND 0x07\<rparr>)
   \<and> get_reg_DETMUL (op\<lparr>multiple := v\<rparr>) = get_reg_DETMUL (op\<lparr>multiple := v AND 0x0F\<rparr>)
   \<and> get_reg_TL (op\<lparr>total_level := v\<rparr>) = get_reg_TL (op\<lparr>total_level := v AND 0x7F\<rparr>)
   \<and> get_reg_KSAR (op\<lparr>key_scale := v\<rparr>) = get_reg_KSAR (op\<lparr>key_scale := v AND 0x03\<rparr>)
   \<and> get_reg_KSAR (op\<lparr>attack_rate := v\<rparr>) = get_reg_KSAR (op\<lparr>attack_rate := v AND 0x1F\<rparr>)
   \<and> get_reg_AMDR (op\<lparr>amp_mod_on := v\<rparr>) = get_reg_AMDR (op\<lparr>amp_mod_on := v AND 0x01\<rparr>)
   \<and> get_reg_AMDR (op\<lparr>decay_rate := v\<rparr>) = get_reg_AMDR (op\<lparr>decay_rate := v AND 0x1F\<rparr>)
   \<and> get_reg_SR (op\<lparr>sustain_rate := v\<rparr>) = get_reg_SR (op\<lparr>sustain_rate := v AND 0x1F\<rparr>)
   \<and> get_reg_SLRL (op\<lparr>sustain_level := v\<rparr>) = get_reg_SLRL (op\<lparr>sustain_level := v AND 0x0F\<rparr>)
   \<and> get_reg_SLRL (op\<lparr>release_rate := v\<rparr>) = get_reg_SLRL (op\<lparr>release_rate := v AND 0x0F\<rparr>)
   \<and> get_reg_SSGEG (op\<lparr>ssg_envelope := v\<rparr>) = get_reg_SSGEG (op\<lparr>ssg_envelope := v AND 0x0F\<rparr>)
   \<and> get_reg_DETMUL (op\<lparr>detune := 8\<rparr>) = get_reg_DETMUL (op\<lparr>detune := 0\<rparr>)
   \<and> get_reg_DETMUL (op\<lparr>multiple := 16\<rparr>) = get_reg_DETMUL (op\<lparr>multiple := 0\<rparr>)
   \<and> get_reg_TL (op\<lparr>total_level := 128\<rparr>) = get_reg_TL (op\<lparr>total_level := 0\<rparr>)
   \<and> get_reg_KSAR (op\<lparr>key_scale := 4\<rparr>) = get_reg_KSAR (op\<lparr>key_scale := 0\<rparr>)
   \<and> get_reg_KSAR (op\<lparr>attack_rate := 32\<rparr>) = get_reg_KSAR (op\<lparr>attack_rate := 0\<rparr>)
   \<and> get_reg_AMDR (op\<lparr>amp_mod_on := 2\<rparr>) = get_reg_AMDR (op\<lparr>amp_mod_on := 0\<rparr>)
   \<and> get_reg_AMDR (op\<lparr>decay_rate := 32\<rparr>) = get_reg_AMDR (op\<lparr>decay_rate := 0\<rparr>)
   \<and> get_reg_SR (op\<lparr>sustain_rate := 32\<rparr>) = get_reg_SR (op\<lparr>sustain_rate := 0\<rparr>)
   \<and> get_reg_SLRL (op\<lparr>sustain_level := 16\<rparr>) = get_reg_SLRL (op\<lparr>sustain_level := 0\<rparr>)
   \<and> get_reg_SLRL (op\<lparr>release_rate := 16\<rparr>) = get_reg_SLRL (op\<lparr>release_rate := 0\<rparr>)
   \<and> get_reg_SSGEG (op\<lparr>ssg_envelope := 16\<rparr>) = get_reg_SSGEG (op\<lparr>ssg_envelope := 0\<rparr>)"
  by (intro conjI mask_detune mask_multiple mask_total_level mask_key_scale mask_attack_rate
      mask_amp_mod_on mask_decay_rate mask_sustain_rate mask_sustain_level mask_release_rate
      mask_ssg_envelope wrap_detune wrap_multiple wrap_total_level wrap_key_scale
      wrap_attack_rate wrap_amp_mod_on wrap_decay_rate wrap_sustain_rate wrap_sustain_level
      wrap_release_rate wrap_ssg_envelope)

section \<open>The FBALG byte\<close>

text \<open>
  C8. Feedback values 4 and 0 differ after masking to three bits, and with the
  same algorithm they pack to the same FBALG byte: \<open>get_reg_FBALG\<close> masks the
  feedback with \<open>0x03\<close>, two bits, so bit 2 of the feedback is lost.
\<close>

theorem fbalg_drops_feedback_bit2:
  "(4 :: int) AND 0x07 \<noteq> 0 AND 0x07
   \<and> get_reg_FBALG (ch\<lparr>feedback := 4\<rparr>) = get_reg_FBALG (ch\<lparr>feedback := 0\<rparr>)
   \<and> get_reg_FBALG ((YMChannel_init 0)\<lparr>feedback := 7, op_algorithm := 4\<rparr>) = 28
   \<and> get_reg_FBALG ((YMChannel_init 0)\<lparr>feedback := 3, op_algorithm := 4\<rparr>) = 28"
  by (simp add: get_reg_FBALG_def YMChannel_init_def)

section \<open>A freshly constructed chip\<close>

lemma upt4: "[0..<4] = [0, 1, 2, 3]"
  by (simp add: upt_rec)

lemma upt5: "[0..<5] = [0, 1, 2, 3, 4]"
  by (simp add: upt_rec)

lemma upt6: "[0..<6] = [0, 1, 2, 3, 4, 5]"
  by (simp add: upt_rec)

text \<open>
  C9 (as amended). A chip constructed with the default \<open>lfo_on=0\<close>, \<open>lfo_freq=0\<close>
  has both LFO fields zero and, in each of its six voices, feedback, algorithm,
  amp_mod_sens and phase_mod_sens zero, audio_out 3, and every field of each of
  the four operators zero; voice \<open>i\<close> has \<open>channel_id\<close> \<open>i\<close>.
\<close>

theorem fresh_chip_defaults:
  "lfo_on (YM2612Chip_init m 0 0) = 0
   \<and> lfo_freq (YM2612Chip_init m 0 0) = 0
   \<and> map (\<lambda>i. voice_fields (chan (YM2612Chip_init m 0 0) i)) [0..<6]
       = replicate 6 [0, 0, 3, 0, 0]
   \<and> map (\<lambda>i. map operator_fields (operator (chan (YM2612Chip_init m 0 0) i))) [0..<6]
       = replicate 6 (replicate 4 (replicate 11 0))
   \<and> map (\<lambda>i. channel_id (chan (YM2612Chip_init m 0 0) i)) [0..<6] = [0, 1, 2, 3, 4, 5]"
  by (simp add: YM2612Chip_init_def YMChannel_init_def YMOperator_init_def chan_def upt6
      voice_fields_def operator_fields_def numeral_eq_Suc)

text \<open>C9 as stated fails: the default \<open>audio_out\<close> of a fresh voice is 3, not 0.\<close>

theorem fresh_audio_out_not_zero:
  "audio_out (chan (YM2612Chip_init None 0 0) 0) = 3
   \<and> audio_out (chan (YM2612Chip_init None 0 0) 0) \<noteq> 0"
  by (simp add: YM2612Chip_init_def YMChannel_init_def chan_def)

section \<open>Properties of the SysEx commands\<close>

lemma send_midi_cmd_attached:
  "midiout self = Some sent \<Longrightarrow> vendor_id self = 0x001234 \<Longrightarrow>
   send_midi_cmd self cmd payload =
     (True, self\<lparr>midiout := Some (sent @ [[0xF0, 0x00, 0x12, 0x34, cmd] @ payload @ [0xF7]])\<rparr>)"
  by (simp add: send_midi_cmd_def)

lemma send_midi_cmd_sends_one:
  "midiout self = Some sent \<Longrightarrow>
   \<exists>frame. send_midi_cmd self cmd payload = (True, self\<lparr>midiout := Some (sent @ [frame])\<rparr>)"
  by (simp add: send_midi_cmd_def Let_def) (rule exI, rule refl)

lemma send_midi_cmd_detached:
  "midiout self = None \<Longrightarrow> send_midi_cmd self cmd payload = (False, self)"
  by (simp add: send_midi_cmd_def)

lemma encode_ascii: "list_all (\<lambda>cp. cp < 0x80) s \<Longrightarrow> encode s = Inr (map int s)"
  by (induction s) (simp_all add: encode_char_def)

lemma ascii_format_ljust15:
  "list_all (\<lambda>cp. cp < 0x80) s \<Longrightarrow> list_all (\<lambda>cp. cp < 0x80) (format_ljust15 s)"
  by (auto simp add: format_ljust15_def list_all_iff)

lemma format_ljust15_short: "length s \<le> 15 \<Longrightarrow> format_ljust15 s = take 15 (s @ replicate 15 32)"
  by (simp add: format_ljust15_def)

lemma length_nibbles: "length (concat (map (\<lambda>b. [g b, h b]) xs)) = 2 * length xs"
  by (induction xs) simp_all

lemma midi_save_preset_ascii:
  assumes "preset_pos < 5" and "list_all (\<lambda>cp. cp < 0x80) preset_name"
  shows "midi_save_preset self preset_pos preset_name =
     Inr (send_midi_cmd self 1
       ([preset_pos]
        @ concat (map (\<lambda>b. [b AND 0x0F, drop_bit 4 b AND 0x0F])
                   (map int (format_ljust15 preset_name)))
        @ get_reg_values_array self))"
  using assms
  by (simp add: midi_save_preset_def YM_MAX_NUM_USER_PRESETS_def YM_SYSEX_CMD_SAVE_PRESET_def
      encode_ascii ascii_format_ljust15 fold_append_blocks Let_def del: map_map)

lemma midi_save_preset_out_of_range:
  "5 \<le> preset_pos \<Longrightarrow> midi_save_preset self preset_pos preset_name = Inr (False, self)"
  by (simp add: midi_save_preset_def YM_MAX_NUM_USER_PRESETS_def)

lemma midi_save_preset_encoded:
  assumes "preset_pos < 5" and "encode (format_ljust15 preset_name) = Inr bs"
  shows "\<exists>payload. midi_save_preset self preset_pos preset_name
           = Inr (send_midi_cmd self 1 payload)"
  using assms
  by (simp add: midi_save_preset_def YM_MAX_NUM_USER_PRESETS_def YM_SYSEX_CMD_SAVE_PRESET_def
      Let_def) (rule exI, rule refl)

lemma midi_save_preset_raises:
  assumes "preset_pos < 5" and "encode (format_ljust15 preset_name) = Inl e"
  shows "midi_save_preset self preset_pos preset_name = Inl e"
  using assms by (simp add: midi_save_preset_def YM_MAX_NUM_USER_PRESETS_def Let_def)

subsection \<open>The payload of the save command\<close>

lemma length_name_payload_spec: "length (name_payload_spec s) = 30"
  unfolding name_payload_spec_def length_nibbles by simp

text \<open>
  C3 (as amended). For every slot below 5 and every name of at most 15 ASCII
  characters, the payload that \<open>midi_save_preset\<close> passes on is exactly the slot,
  then the 30 name bytes of the specification, then the register array, which
  has 296 values; for the name LEAD the first two name bytes are 0x0C and 0x04.
\<close>

theorem save_preset_payload:
  assumes "preset_pos < 5" and "length preset_name \<le> 15"
    and "list_all (\<lambda>cp. cp < 0x80) preset_name"
  shows "midi_save_preset self preset_pos preset_name =
           Inr (send_midi_cmd self YM_SYSEX_CMD_SAVE_PRESET
                  ([preset_pos] @ name_payload_spec preset_name @ get_reg_values_array self))
         \<and> length (name_payload_spec preset_name) = 30
         \<and> length (get_reg_values_array self) = 296
         \<and> take 2 (name_payload_spec (map of_char ''LEAD'')) = [0x0C, 0x04]"
proof -
  have "midi_save_preset self preset_pos preset_name =
          Inr (send_midi_cmd self 1
                 ([preset_pos] @ name_payload_spec preset_name @ get_reg_values_array self))"
    using assms by (simp only: midi_save_preset_ascii name_payload_spec_def format_ljust15_short)
  moreover have "take 2 (name_payload_spec (map of_char ''LEAD'')) = [0x0C, 0x04]"
    by (simp add: name_payload_spec_def)
  ultimately show ?thesis
    by (simp add: length_name_payload_spec get_reg_values_array_eq length_flatten_spec
        YM_SYSEX_CMD_SAVE_PRESET_def)
qed

theorem save_preset_payload_witness:
  "(0 :: int) < 5 \<and> length (map of_char ''LEAD'' :: pystr) \<le> 15
   \<and> midi_save_preset (YM2612Chip_init (Some []) 0 0) 0 (map of_char ''LEAD'') =
       Inr (send_midi_cmd (YM2612Chip_init (Some []) 0 0) YM_SYSEX_CMD_SAVE_PRESET
              ([0] @ name_payload_spec (map of_char ''LEAD'')
                 @ get_reg_values_array (YM2612Chip_init (Some []) 0 0)))
   \<and> take 2 (name_payload_spec (map of_char ''LEAD'')) = [0x0C, 0x04]"
  using save_preset_payload [of 0 "map of_char ''LEAD''" "YM2612Chip_init (Some []) 0 0"]
  by simp

text \<open>
  C3 as stated fails. A name of 16 characters is not truncated: its 32 name bytes
  are all sent. And the register values that follow the name are 296, not 266.
\<close>

theorem save_preset_long_name_not_truncated:
  "midi_save_preset (YM2612Chip_init (Some []) 0 0) 0 (replicate 16 65) =
     Inr (True, (YM2612Chip_init (Some []) 0 0)
       \<lparr>midiout := Some [[0xF0, 0x00, 0x12, 0x34, 1] @ [0] @ concat (replicate 16 [1, 4])
           @ get_reg_values_array (YM2612Chip_init (Some []) 0 0) @ [0xF7]]\<rparr>)
   \<and> length (concat (replicate 16 [1, 4 :: int])) = 32
   \<and> length (get_reg_values_array (YM2612Chip_init (Some []) 0 0)) = 296"
proof -
  let ?c = "YM2612Chip_init (Some []) 0 0"
  have a: "list_all (\<lambda>cp. cp < 0x80) (replicate 16 (65 :: nat))"
    by (simp add: list_all_iff)
  have b: "midiout ?c = Some []" and c: "vendor_id ?c = 0x001234"
    by (simp_all add: YM2612Chip_init_def)
  have d: "concat (map (\<lambda>b. [b AND 0x0F, drop_bit 4 b AND 0x0F])
             (map int (format_ljust15 (replicate 16 65)))) = concat (replicate 16 [1, 4])"
    by (simp add: format_ljust15_def numeral_eq_Suc)
  have "midi_save_preset ?c 0 (replicate 16 65) =
          Inr (send_midi_cmd ?c 1 ([0] @ concat (replicate 16 [1, 4]) @ get_reg_values_array ?c))"
    using midi_save_preset_ascii [OF _ a, of 0 ?c] by (simp only: d)
  then have e: "midi_save_preset ?c 0 (replicate 16 65) =
     Inr (True, ?c\<lparr>midiout := Some [[0xF0, 0x00, 0x12, 0x34, 1] @ [0]
       @ concat (replicate 16 [1, 4]) @ get_reg_values_array ?c @ [0xF7]]\<rparr>)"
    by (simp add: send_midi_cmd_attached [OF b c])
  have f: "length (concat (replicate 16 [1, 4 :: int])) = 32"
    by (simp add: length_concat sum_list_replicate)
  have g: "length (get_reg_values_array ?c) = 296"
    by (simp add: get_reg_values_array_eq length_flatten_spec)
  from e f g show ?thesis by (intro conjI)
qed

subsection \<open>Slot bounds\<close>

lemma slot_bounds_attached:
  assumes "midiout self = Some sent"
  shows "(5 \<le> preset_pos \<longrightarrow> midi_load_preset self preset_pos = (False, self))
       \<and> (preset_pos < 5 \<longrightarrow> (\<exists>frame. midi_load_preset self preset_pos =
              (True, self\<lparr>midiout := Some (sent @ [frame])\<rparr>)))
       \<and> (8 \<le> preset_pos \<longrightarrow> midi_load_default_preset self preset_pos = (False, self))
       \<and> (preset_pos < 8 \<longrightarrow> (\<exists>frame. midi_load_default_preset self preset_pos =
              (True, self\<lparr>midiout := Some (sent @ [frame])\<rparr>)))
       \<and> (5 \<le> preset_pos \<longrightarrow> midi_save_preset self preset_pos preset_name = Inr (False, self))
       \<and> (preset_pos < 5 \<longrightarrow> encode (format_ljust15 preset_name) = Inr bs \<longrightarrow>
            (\<exists>frame. midi_save_preset self preset_pos preset_name =
              Inr (True, self\<lparr>midiout := Some (sent @ [frame])\<rparr>)))
       \<and> (preset_pos < 5 \<longrightarrow> encode (format_ljust15 preset_name) = Inl e \<longrightarrow>
            midi_save_preset self preset_pos preset_name = Inl e)"
proof (intro conjI impI)
  assume "5 \<le> preset_pos"
  then show "midi_load_preset self preset_pos = (False, self)"
    by (simp add: midi_load_preset_def YM_MAX_NUM_USER_PRESETS_def)
next
  assume "preset_pos < 5"
  then show "\<exists>frame. midi_load_preset self preset_pos =
      (True, self\<lparr>midiout := Some (sent @ [frame])\<rparr>)"
    using send_midi_cmd_sends_one [OF assms]
    by (simp add: midi_load_preset_def YM_MAX_NUM_USER_PRESETS_def)
next
  assume "8 \<le> preset_pos"
  then show "midi_load_default_preset self preset_pos = (False, self)"
    by (simp add: midi_load_default_preset_def YM_MAX_NUM_DEFAULT_PRESETS_def)
next
  assume "preset_pos < 8"
  then show "\<exists>frame. midi_load_default_preset self preset_pos =
      (True, self\<lparr>midiout := Some (sent @ [frame])\<rparr>)"
    using send_midi_cmd_sends_one [OF assms]
    by (simp add: midi_load_default_preset_def YM_MAX_NUM_DEFAULT_PRESETS_def)
next
  assume "5 \<le> preset_pos"
  then show "midi_save_preset self preset_pos preset_name = Inr (False, self)"
    by (rule midi_save_preset_out_of_range)
next
  assume "preset_pos < 5" and "encode (format_ljust15 preset_name) = Inr bs"
  then obtain payload where
    "midi_save_preset self preset_pos preset_name = Inr (send_midi_cmd self 1 payload)"
    using midi_save_preset_encoded by blast
  moreover obtain frame where
    "send_midi_cmd self 1 payload = (True, self\<lparr>midiout := Some (sent @ [frame])\<rparr>)"
    using send_midi_cmd_sends_one [OF assms] by blast
  ultimately have "midi_save_preset self preset_pos preset_name =
      Inr (True, self\<lparr>midiout := Some (sent @ [frame])\<rparr>)"
    by simp
  then show "\<exists>frame. midi_save_preset self preset_pos preset_name =
      Inr (True, self\<lparr>midiout := Some (sent @ [frame])\<rparr>)"
    by (rule exI)
next
  assume "preset_pos < 5" and "encode (format_ljust15 preset_name) = Inl e"
  then show "midi_save_preset self preset_pos preset_name = Inl e"
    by (rule midi_save_preset_raises)
qed

lemma slot_bounds_detached:
  assumes "midiout self = None"
  shows "midi_load_preset self preset_pos = (False, self)
       \<and> midi_load_default_preset self preset_pos = (False, self)
       \<and> (5 \<le> preset_pos \<longrightarrow> midi_save_preset self preset_pos preset_name = Inr (False, self))
       \<and> (preset_pos < 5 \<longrightarrow> encode (format_ljust15 preset_name) = Inr bs \<longrightarrow>
            midi_save_preset self preset_pos preset_name = Inr (False, self))
       \<and> (preset_pos < 5 \<longrightarrow> encode (format_ljust15 preset_name) = Inl e \<longrightarrow>
            midi_save_preset self preset_pos preset_name = Inl e)"
proof (intro conjI impI)
  show "midi_load_preset self preset_pos = (False, self)"
    by (simp add: midi_load_preset_def send_midi_cmd_detached [OF assms])
next
  show "midi_load_default_preset self preset_pos = (False, self)"
    by (simp add: midi_load_default_preset_def send_midi_cmd_detached [OF assms])
next
  assume "5 \<le> preset_pos"
  then show "midi_save_preset self preset_pos preset_name = Inr (False, self)"
    by (rule midi_save_preset_out_of_range)
next
  assume "preset_pos < 5" and "encode (format_ljust15 preset_name) = Inr bs"
  then obtain payload where
    "midi_save_preset self preset_pos preset_name = Inr (send_midi_cmd self 1 payload)"
    using midi_save_preset_encoded by blast
  then show "midi_save_preset self preset_pos preset_name = Inr (False, self)"
    by (simp add: send_midi_cmd_detached [OF assms])
next
  assume "preset_pos < 5" and "encode (format_ljust15 preset_name) = Inl e"
  then show "midi_save_preset self preset_pos preset_name = Inl e"
    by (rule midi_save_preset_raises)
qed

text \<open>
  C4 (as amended). On a chip with a MIDI output attached, for every slot:
  \<open>midi_load_preset\<close> and \<open>midi_save_preset\<close> return \<open>False\<close> exactly when the slot is 5
  or more and \<open>midi_load_default_preset\<close> exactly when it is 8 or more; on such a
  failure the chip, and so what its MIDI output has received, is unchanged; on a
  slot in range the command returns \<open>True\<close> and exactly one frame has been sent
  (for \<open>midi_save_preset\<close> when the name can be encoded).
  On a chip without a MIDI output, \<open>midi_load_preset\<close> and
  \<open>midi_load_default_preset\<close> return \<open>False\<close> for every slot, and so does
  \<open>midi_save_preset\<close> when the slot is 5 or more or the name can be encoded; the
  chip is unchanged.
  With or without a MIDI output, \<open>midi_save_preset\<close> on a slot below 5 with a name
  that cannot be encoded raises the encoding error.
\<close>

theorem slot_bounds:
  "(midiout self = Some sent \<longrightarrow>
       (5 \<le> preset_pos \<longrightarrow> midi_load_preset self preset_pos = (False, self))
     \<and> (preset_pos < 5 \<longrightarrow> (\<exists>frame. midi_load_preset self preset_pos =
            (True, self\<lparr>midiout := Some (sent @ [frame])\<rparr>)))
     \<and> (8 \<le> preset_pos \<longrightarrow> midi_load_default_preset self preset_pos = (False, self))
     \<and> (preset_pos < 8 \<longrightarrow> (\<exists>frame. midi_load_default_preset self preset_pos =
            (True, self\<lparr>midiout := Some (sent @ [frame])\<rparr>)))
     \<and> (5 \<le> preset_pos \<longrightarrow> midi_save_preset self preset_pos preset_name = Inr (False, self))
     \<and> (preset_pos < 5 \<longrightarrow> encode (format_ljust15 preset_name) = Inr bs \<longrightarrow>
          (\<exists>frame. midi_save_preset self preset_pos preset_name =
            Inr (True, self\<lparr>midiout := Some (sent @ [frame])\<rparr>))))
   \<and> (midiout self = None \<longrightarrow>
       midi_load_preset self preset_pos = (False, self)
     \<and> midi_load_default_preset self preset_pos = (False, self)
     \<and> (5 \<le> preset_pos \<longrightarrow> midi_save_preset self preset_pos preset_name = Inr (False, self))
     \<and> (preset_pos < 5 \<longrightarrow> encode (format_ljust15 preset_name) = Inr bs \<longrightarrow>
          midi_save_preset self preset_pos preset_name = Inr (False, self)))
   \<and> (preset_pos < 5 \<longrightarrow> encode (format_ljust15 preset_name) = Inl e \<longrightarrow>
        midi_save_preset self preset_pos preset_name = Inl e)"
proof (intro conjI)
  show "midiout self = Some sent \<longrightarrow>
       (5 \<le> preset_pos \<longrightarrow> midi_load_preset self preset_pos = (False, self))
     \<and> (preset_pos < 5 \<longrightarrow> (\<exists>frame. midi_load_preset self preset_pos =
            (True, self\<lparr>midiout := Some (sent @ [frame])\<rparr>)))
     \<and> (8 \<le> preset_pos \<longrightarrow> midi_load_default_preset self preset_pos = (False, self))
     \<and> (preset_pos < 8 \<longrightarrow> (\<exists>frame. midi_load_default_preset self preset_pos =
            (True, self\<lparr>midiout := Some (sent @ [frame])\<rparr>)))
     \<and> (5 \<le> preset_pos \<longrightarrow> midi_save_preset self preset_pos preset_name = Inr (False, self))
     \<and> (preset_pos < 5 \<longrightarrow> encode (format_ljust15 preset_name) = Inr bs \<longrightarrow>
          (\<exists>frame. midi_save_preset self preset_pos preset_name =
            Inr (True, self\<lparr>midiout := Some (sent @ [frame])\<rparr>)))"
    using slot_bounds_attached [of self sent preset_pos preset_name bs] by blast
next
  show "midiout self = None \<longrightarrow>
       midi_load_preset self preset_pos = (False, self)
     \<and> midi_load_default_preset self preset_pos = (False, self)
     \<and> (5 \<le> preset_pos \<longrightarrow> midi_save_preset self preset_pos preset_name = Inr (False, self))
     \<and> (preset_pos < 5 \<longrightarrow> encode (format_ljust15 preset_name) = Inr bs \<longrightarrow>
          midi_save_preset self preset_pos preset_name = Inr (False, self))"
    using slot_bounds_detached [of self preset_pos preset_name bs] by blast
next
  show "preset_pos < 5 \<longrightarrow> encode (format_ljust15 preset_name) = Inl e \<longrightarrow>
        midi_save_preset self preset_pos preset_name = Inl e"
    using midi_save_preset_raises by blast
qed

theorem slot_bounds_witness:
  "midiout (YM2612Chip_init (Some []) 0 0) = Some []
   \<and> midi_load_default_preset (YM2612Chip_init (Some []) 0 0) 8
       = (False, YM2612Chip_init (Some []) 0 0)
   \<and> midi_save_preset (YM2612Chip_init (Some []) 0 0) 8 (map of_char ''LEAD'')
       = Inr (False, YM2612Chip_init (Some []) 0 0)
   \<and> fst (midi_load_default_preset (YM2612Chip_init (Some []) 0 0) 7)
   \<and> midiout (YM2612Chip_init None 0 0) = None
   \<and> midi_load_preset (YM2612Chip_init None 0 0) 4 = (False, YM2612Chip_init None 0 0)
   \<and> encode (format_ljust15 []) = Inr (replicate 15 32)
   \<and> midi_save_preset (YM2612Chip_init None 0 0) 4 [] = Inr (False, YM2612Chip_init None 0 0)
   \<and> encode (format_ljust15 [0xD800]) = Inl UnicodeEncodeError
   \<and> midi_save_preset (YM2612Chip_init None 0 0) 0 [0xD800] = Inl UnicodeEncodeError
   \<and> midi_save_preset (YM2612Chip_init (Some []) 0 0) 0 [0xD800] = Inl UnicodeEncodeError"
proof -
  have m: "midiout (YM2612Chip_init (Some []) 0 0) = Some []"
    and n: "midiout (YM2612Chip_init None 0 0) = None"
    by (simp_all add: YM2612Chip_init_def)
  have enc: "encode (format_ljust15 []) = Inr (replicate 15 32)"
    using encode_ascii [of "replicate 15 32"] by (simp add: format_ljust15_def list_all_iff)
  have bad: "encode (format_ljust15 [0xD800]) = Inl UnicodeEncodeError"
    by (simp add: format_ljust15_def encode_char_def)
  have a: "fst (midi_load_default_preset (YM2612Chip_init (Some []) 0 0) 7)"
    using slot_bounds [of "YM2612Chip_init (Some []) 0 0" "[]" 7 "[]"] m by fastforce
  have b: "midi_load_default_preset (YM2612Chip_init (Some []) 0 0) 8
             = (False, YM2612Chip_init (Some []) 0 0)
         \<and> midi_save_preset (YM2612Chip_init (Some []) 0 0) 8 (map of_char ''LEAD'')
             = Inr (False, YM2612Chip_init (Some []) 0 0)"
    using slot_bounds [of "YM2612Chip_init (Some []) 0 0" "[]" 8 "map of_char ''LEAD''"] m
    by simp
  have c: "midi_load_preset (YM2612Chip_init None 0 0) 4 = (False, YM2612Chip_init None 0 0)
         \<and> midi_save_preset (YM2612Chip_init None 0 0) 4 []
             = Inr (False, YM2612Chip_init None 0 0)"
    using slot_bounds [of "YM2612Chip_init None 0 0" "[]" 4 "[]" "replicate 15 32"] n enc
    by simp
  have d: "midi_save_preset (YM2612Chip_init None 0 0) 0 [0xD800] = Inl UnicodeEncodeError"
    using slot_bounds [of "YM2612Chip_init None 0 0" "[]" 0 "[0xD800]" "[]" UnicodeEncodeError]
      bad by simp
  have e: "midi_save_preset (YM2612Chip_init (Some []) 0 0) 0 [0xD800] = Inl UnicodeEncodeError"
    using slot_bounds [of "YM2612Chip_init (Some []) 0 0" "[]" 0 "[0xD800]" "[]"
        UnicodeEncodeError] bad by simp
  from m n enc bad a b c d e show ?thesis by simp
qed

text \<open>
  C4 as stated fails: a chip constructed without a MIDI output (the constructor's
  default) refuses the in-range slot 7 as well, and nothing is sent.
\<close>

theorem in_range_slot_fails_without_midiout:
  "midi_load_default_preset (YM2612Chip_init None 0 0) 7 = (False, YM2612Chip_init None 0 0)"
  by (simp add: midi_load_default_preset_def YM_MAX_NUM_DEFAULT_PRESETS_def
      send_midi_cmd_detached YM2612Chip_init_def)

subsection \<open>The frame\<close>

text \<open>
  C5. With the vendor id 0x001234 that the constructor sets, the frame that
  \<open>__send_midi_cmd\<close> hands to the MIDI output is exactly 0xF0, 0x00, 0x12, 0x34, the
  command, the payload, 0xF7: it begins with 0xF0, ends with 0xF7 and its fifth
  byte is the command. Every public command sends through \<open>__send_midi_cmd\<close>
  with one of the command codes 0, 1, 2, 3, or sends nothing.
\<close>

theorem sysex_frame_shape:
  assumes "midiout self = Some sent" and "vendor_id self = 0x001234"
  shows "send_midi_cmd self cmd payload =
           (True, self\<lparr>midiout :=
              Some (sent @ [[0xF0, 0x00, 0x12, 0x34, cmd] @ payload @ [0xF7]])\<rparr>)
         \<and> hd ([0xF0, 0x00, 0x12, 0x34, cmd] @ payload @ [0xF7]) = 0xF0
         \<and> last ([0xF0, 0x00, 0x12, 0x34, cmd] @ payload @ [0xF7]) = 0xF7
         \<and> ([0xF0, 0x00, 0x12, 0x34, cmd] @ payload @ [0xF7]) ! 4 = cmd
         \<and> midi_set_reg_values self = send_midi_cmd self 0 (get_reg_values_array self)
         \<and> midi_load_preset self preset_pos =
             (if preset_pos < 5 then send_midi_cmd self 2 [preset_pos] else (False, self))
         \<and> midi_load_default_preset self preset_pos =
             (if preset_pos < 8 then send_midi_cmd self 3 [preset_pos] else (False, self))
         \<and> (midi_save_preset self preset_pos preset_name = Inr r \<longrightarrow>
              r = (False, self) \<or> (\<exists>p. r = send_midi_cmd self 1 p))"
proof -
  have "midi_save_preset self preset_pos preset_name = Inr r \<longrightarrow>
          r = (False, self) \<or> (\<exists>p. r = send_midi_cmd self 1 p)"
  proof (cases "preset_pos < 5")
    case False
    then show ?thesis by (simp add: midi_save_preset_out_of_range)
  next
    case True
    show ?thesis
    proof (cases "encode (format_ljust15 preset_name)")
      case (Inl e)
      then show ?thesis by (simp add: midi_save_preset_raises [OF True])
    next
      case (Inr bs)
      then show ?thesis using midi_save_preset_encoded [OF True Inr, of self] by auto
    qed
  qed
  then show ?thesis
    using assms
    by (simp add: send_midi_cmd_attached midi_set_reg_values_def midi_load_preset_def
        midi_load_default_preset_def YM_MAX_NUM_USER_PRESETS_def YM_MAX_NUM_DEFAULT_PRESETS_def
        YM_SYSEX_CMD_SET_REG_def YM_SYSEX_CMD_LOAD_PRESET_def
        YM_SYSEX_CMD_LOAD_DEFAULT_PRESET_def)
qed

theorem sysex_frame_shape_witness:
  "midiout (YM2612Chip_init (Some []) 0 0) = Some []
   \<and> vendor_id (YM2612Chip_init (Some []) 0 0) = 0x001234
   \<and> midi_load_default_preset (YM2612Chip_init (Some []) 0 0) 2 =
       (True, (YM2612Chip_init (Some []) 0 0)
                \<lparr>midiout := Some [[0xF0, 0x00, 0x12, 0x34, 3, 2, 0xF7]]\<rparr>)"
proof -
  have m: "midiout (YM2612Chip_init (Some []) 0 0) = Some []"
    and v: "vendor_id (YM2612Chip_init (Some []) 0 0) = 0x001234"
    by (simp_all add: YM2612Chip_init_def)
  show ?thesis
    using sysex_frame_shape [OF m v, of 3 "[2]" 2] m v by simp
qed


section \<open>Properties of loading a VGI file\<close>

lemma read_byte_ok:
  "pos < length byte_data \<Longrightarrow> read_byte byte_data pos = Some (uint (byte_data ! pos), Suc pos)"
  by (simp add: read_byte_def)

lemma assign_channel_fuse:
  "assign_channel (assign_channel self i f) i g = assign_channel self i (\<lambda>ch. g (f ch))"
  by (cases "channel self ! i < length (objs self)")
     (simp_all add: assign_channel_def chan_def list_update_beyond)

lemma operator_update_fuse:
  "(\<lambda>ch :: YMChannel. (ch\<lparr>operator := (operator ch)[k := f (operator ch ! k)]\<rparr>)
            \<lparr>operator := (operator (ch\<lparr>operator := (operator ch)[k := f (operator ch ! k)]\<rparr>))
                [k := g (operator (ch\<lparr>operator := (operator ch)[k := f (operator ch ! k)]\<rparr>) ! k)]\<rparr>)
   = (\<lambda>ch. ch\<lparr>operator := (operator ch)[k := g (f (operator ch ! k))]\<rparr>)"
proof (rule ext)
  fix ch :: YMChannel
  show "(ch\<lparr>operator := (operator ch)[k := f (operator ch ! k)]\<rparr>)
            \<lparr>operator := (operator (ch\<lparr>operator := (operator ch)[k := f (operator ch ! k)]\<rparr>))
                [k := g (operator (ch\<lparr>operator := (operator ch)[k := f (operator ch ! k)]\<rparr>) ! k)]\<rparr>
        = ch\<lparr>operator := (operator ch)[k := g (f (operator ch ! k))]\<rparr>"
    by (cases "k < length (operator ch)") (simp_all add: list_update_beyond)
qed

lemma assign_operator_fuse:
  "assign_operator (assign_operator self c k f) c k g = assign_operator self c k (\<lambda>op. g (f op))"
  unfolding assign_operator_def assign_channel_fuse operator_update_fuse ..

lemma load_operator_closed:
  assumes "pos + 10 \<le> length byte_data"
  shows "load_operator byte_data k (self, pos)
         = Some (assign_operator self 0 k (decode_operator byte_data pos), pos + 10)"
  using assms
  by (simp add: load_operator_def read_byte_ok assign_operator_fuse decode_operator_def
      eval_nat_numeral)

lemma load_vgi_file_closed:
  assumes "length byte_data = 43"
  shows "load_vgi_file byte_data self = Some (loaded byte_data self)"
  using assms
  by (simp add: load_vgi_file_def read_byte_ok upt4 load_operator_closed loaded_def
      numeral_2_eq_2 numeral_3_eq_3)

lemma length_6_obtain: "length xs = 6 \<Longrightarrow> \<exists>a b c d e f. xs = [a, b, c, d, e, f]"
  by (auto simp add: eval_nat_numeral length_Suc_conv)

lemma length_4_obtain: "length xs = 4 \<Longrightarrow> \<exists>a b c d. xs = [a, b, c, d]"
  by (auto simp add: eval_nat_numeral length_Suc_conv)

lemma replicate_6: "replicate 6 x = [x, x, x, x, x, x]"
  by (simp add: eval_nat_numeral)

lemma loaded_chip_ok:
  assumes "chip_ok self"
  shows "loaded byte_data self =
     self\<lparr>chip_op_algorithm := Some (uint (byte_data ! 0)),
          chip_feedback := Some (uint (byte_data ! 1)),
          chip_audio_out := Some (drop_bit 6 (uint (byte_data ! 2)) AND 0x03),
          chip_amp_mod_sens := Some (drop_bit 4 (uint (byte_data ! 2)) AND 0x03),
          chip_phase_mod_sens := Some (uint (byte_data ! 2) AND 0x07),
          channel := replicate 6 (channel self ! 0),
          objs := (objs self)[channel self ! 0 := (chan self 0)
            \<lparr>operator := [decode_operator byte_data 3 (operator (chan self 0) ! 0),
                          decode_operator byte_data 13 (operator (chan self 0) ! 1),
                          decode_operator byte_data 23 (operator (chan self 0) ! 2),
                          decode_operator byte_data 33 (operator (chan self 0) ! 3)],
             channel_id := 5\<rparr>]\<rparr>"
proof -
  from assms obtain a b c d e f where ch: "channel self = [a, b, c, d, e, f]"
    using length_6_obtain unfolding chip_ok_def by blast
  with assms have a: "a < length (objs self)"
    by (simp add: chip_ok_def)
  with assms have "length (operator (objs self ! a)) = 4"
    by (simp add: chip_ok_def list_all_length)
  then obtain o0 o1 o2 o3 where ops: "operator (objs self ! a) = [o0, o1, o2, o3]"
    using length_4_obtain by blast
  show ?thesis
    using a
    by (simp add: loaded_def upt5 copy_channel_def assign_operator_def assign_channel_def
        chan_def ch ops replicate_6)
qed

lemma chip_ok_init: "chip_ok (YM2612Chip_init m l f)"
  by (simp add: chip_ok_def YM2612Chip_init_def YMChannel_init_def)

lemma list_all_update:
  "list_all P xs \<Longrightarrow> P x \<Longrightarrow> list_all P (xs[i := x])"
  using set_update_subset_insert [of xs i x] by (auto simp add: list_all_iff)

lemma chip_ok_loaded:
  assumes "chip_ok self"
  shows "chip_ok (loaded byte_data self)"
proof -
  from assms have a: "channel self ! 0 < length (objs self)"
    using length_6_obtain [of "channel self"] by (auto simp add: chip_ok_def)
  from assms have ops: "list_all (\<lambda>ch. length (operator ch) = 4) (objs self)"
    by (simp add: chip_ok_def)
  have "length (channel (loaded byte_data self)) = 6"
    by (simp add: loaded_chip_ok [OF assms])
  moreover have "list_all (\<lambda>a. a < length (objs (loaded byte_data self)))
      (channel (loaded byte_data self))"
    using a by (simp add: loaded_chip_ok [OF assms] list_all_iff)
  moreover have "list_all (\<lambda>ch. length (operator ch) = 4) (objs (loaded byte_data self))"
    unfolding loaded_chip_ok [OF assms] by (simp add: list_all_update [OF ops])
  ultimately show ?thesis
    by (simp add: chip_ok_def)
qed

lemmas load_eval = load_vgi_file_closed loaded_def upt5 copy_channel_def assign_operator_def
  assign_channel_def chan_def decode_operator_def YM2612Chip_init_def YMChannel_init_def
  YMOperator_init_def zero_loaded_def

lemma load_zeros_fresh:
  "load_vgi_file (replicate 43 0) (YM2612Chip_init None 0 0) = Some zero_loaded"
  by (simp add: load_eval)

text \<open>
  C1. Loading 43 zero bytes into a fresh chip succeeds, and the voice under every
  channel key still has \<open>audio_out\<close> 3, not 0. Loading a file whose first three
  bytes are 5, 6 and 0xFF stores algorithm 5, feedback 6, audio_out 3,
  amp_mod_sens 3 and phase_mod_sens 7 as attributes of the chip object, while
  the voice keeps feedback 0, algorithm 0, audio_out 3, amp_mod_sens 0 and
  phase_mod_sens 0: the voice-level fields of the file never reach the voice.
\<close>

theorem load_misses_voice_fields:
  "load_vgi_file (replicate 43 0) (YM2612Chip_init None 0 0) = Some zero_loaded
   \<and> audio_out (chan zero_loaded 0) = 3
   \<and> voice_fields (chan zero_loaded 0) = [0, 0, 3, 0, 0]
   \<and> (case load_vgi_file ([5, 6, 0xFF] @ replicate 40 0) (YM2612Chip_init None 0 0) of
         Some c \<Rightarrow> chip_op_algorithm c = Some 5 \<and> chip_feedback c = Some 6
           \<and> chip_audio_out c = Some 3 \<and> chip_amp_mod_sens c = Some 3
           \<and> chip_phase_mod_sens c = Some 7
           \<and> voice_fields (chan c 0) = [0, 0, 3, 0, 0]
       | None \<Rightarrow> False)"
proof -
  have "voice_fields (chan zero_loaded 0) = [0, 0, 3, 0, 0]"
    by (simp add: zero_loaded_def voice_fields_def chan_def YM2612Chip_init_def
        YMChannel_init_def)
  moreover have "audio_out (chan zero_loaded 0) = 3"
    by (simp add: zero_loaded_def chan_def YM2612Chip_init_def YMChannel_init_def)
  moreover have
    "(case load_vgi_file ([5, 6, 0xFF] @ replicate 40 0) (YM2612Chip_init None 0 0) of
         Some c \<Rightarrow> chip_op_algorithm c = Some 5 \<and> chip_feedback c = Some 6
           \<and> chip_audio_out c = Some 3 \<and> chip_amp_mod_sens c = Some 3
           \<and> chip_phase_mod_sens c = Some 7
           \<and> voice_fields (chan c 0) = [0, 0, 3, 0, 0]
       | None \<Rightarrow> False)"
    by (simp add: load_eval voice_fields_def nth_append)
  ultimately show ?thesis
    using load_zeros_fresh by simp
qed

text \<open>
  C2 (as amended). For every buffer whose length is not 43, \<open>load_vgi_file\<close>
  returns normally and leaves the whole chip, so every register field, as it
  was.
\<close>

theorem load_wrong_size_unchanged:
  "length byte_data \<noteq> 43 \<Longrightarrow> load_vgi_file byte_data self = Some self"
  by (simp add: load_vgi_file_def)

theorem load_wrong_size_unchanged_witness:
  "length (replicate 40 (0 :: byte)) \<noteq> 43
   \<and> load_vgi_file (replicate 40 0) (YM2612Chip_init None 0 0) = Some (YM2612Chip_init None 0 0)"
  using load_wrong_size_unchanged [of "replicate 40 0" "YM2612Chip_init None 0 0"] by simp

text \<open>
  C2 as stated fails: on the chip left by a load of 43 zero bytes, the rejected
  40-byte buffer and the accepted 43-byte buffer give the same outcome, a normal
  return with the same chip, so the caller cannot observe the failure.
\<close>

theorem load_wrong_size_not_observable:
  "load_vgi_file (replicate 40 0) zero_loaded = Some zero_loaded
   \<and> load_vgi_file (replicate 43 0) zero_loaded = Some zero_loaded"
proof -
  have "load_vgi_file (replicate 40 0) zero_loaded = Some zero_loaded"
    by (simp add: load_vgi_file_def)
  moreover have "load_vgi_file (replicate 43 0) zero_loaded = Some zero_loaded"
    by (simp add: load_eval)
  ultimately show ?thesis by simp
qed

text \<open>
  C10. After a load of a 43-byte file into a chip, all six channel keys hold the
  address that key 0 held, so they refer to one and the same voice record; its
  \<open>channel_id\<close> is 5; the register array consists of the two LFO fields and six
  copies of that voice's block; an assignment through any channel key \<open>i\<close> is
  seen through every key; and the four operators of the record are the four
  operator blocks of the file.
\<close>

theorem load_aliases_all_channels:
  assumes "chip_ok self" and "length byte_data = 43"
  shows "\<exists>c. load_vgi_file byte_data self = Some c
           \<and> channel c = replicate 6 (channel self ! 0)
           \<and> map (chan c) [0..<6] = replicate 6 (chan c 0)
           \<and> channel_id (chan c 0) = 5
           \<and> get_reg_values_array c
               = [lfo_on c, lfo_freq c] @ concat (replicate 6 (voice_block (chan c 0)))
           \<and> (i < 6 \<longrightarrow>
                map (chan (assign_channel c i f)) [0..<6] = replicate 6 (f (chan c 0)))
           \<and> operator (chan c 0)
               = [decode_operator byte_data 3 (operator (chan self 0) ! 0),
                  decode_operator byte_data 13 (operator (chan self 0) ! 1),
                  decode_operator byte_data 23 (operator (chan self 0) ! 2),
                  decode_operator byte_data 33 (operator (chan self 0) ! 3)]"
proof -
  let ?c = "loaded byte_data self"
  from assms(1) have a: "channel self ! 0 < length (objs self)"
    using length_6_obtain [of "channel self"] by (auto simp add: chip_ok_def)
  have l: "load_vgi_file byte_data self = Some ?c"
    using assms(2) by (rule load_vgi_file_closed)
  have c1: "channel ?c = replicate 6 (channel self ! 0)"
    by (simp add: loaded_chip_ok [OF assms(1)])
  have c0: "\<And>j. j < 6 \<Longrightarrow> chan ?c j = objs ?c ! (channel self ! 0)"
    by (simp add: chan_def c1)
  have c2: "map (chan ?c) [0..<6] = replicate 6 (chan ?c 0)"
    by (simp add: upt6 replicate_6 c0)
  have c3: "channel_id (chan ?c 0) = 5"
    using a by (simp add: loaded_chip_ok [OF assms(1)] chan_def)
  have c4: "get_reg_values_array ?c
      = [lfo_on ?c, lfo_freq ?c] @ concat (replicate 6 (voice_block (chan ?c 0)))"
    by (simp add: get_reg_values_array_eq flatten_spec_def upt6 replicate_6 c0)
  have k: "\<And>j. i < 6 \<Longrightarrow> j < 6 \<Longrightarrow>
      chan (assign_channel ?c i f) j = f (objs ?c ! (channel self ! 0))"
    using a by (simp add: loaded_chip_ok [OF assms(1)] assign_channel_def chan_def)
  have c5: "i < 6 \<longrightarrow>
      map (chan (assign_channel ?c i f)) [0..<6] = replicate 6 (f (chan ?c 0))"
    by (simp add: upt6 replicate_6 k c0)
  have c6: "operator (chan ?c 0)
               = [decode_operator byte_data 3 (operator (chan self 0) ! 0),
                  decode_operator byte_data 13 (operator (chan self 0) ! 1),
                  decode_operator byte_data 23 (operator (chan self 0) ! 2),
                  decode_operator byte_data 33 (operator (chan self 0) ! 3)]"
    using a by (simp add: loaded_chip_ok [OF assms(1)] chan_def)
  from l c1 c2 c3 c4 c5 c6 show ?thesis by blast
qed

theorem load_aliases_all_channels_witness:
  "chip_ok (YM2612Chip_init None 0 0) \<and> length (replicate 43 (0 :: byte)) = 43
   \<and> load_vgi_file (replicate 43 0) (YM2612Chip_init None 0 0) = Some zero_loaded
   \<and> channel zero_loaded = replicate 6 0
   \<and> map (chan zero_loaded) [0..<6] = replicate 6 (chan zero_loaded 0)
   \<and> channel_id (chan zero_loaded 0) = 5
   \<and> map (chan (assign_channel zero_loaded 3 (\<lambda>ch. ch\<lparr>feedback := 7\<rparr>))) [0..<6]
       = replicate 6 ((chan zero_loaded 0)\<lparr>feedback := 7\<rparr>)"
proof -
  have ok: "chip_ok (YM2612Chip_init None 0 0)" by (rule chip_ok_init)
  have len: "length (replicate 43 (0 :: byte)) = 43" by simp
  have ch0: "channel (YM2612Chip_init None 0 0) ! 0 = 0"
    by (simp add: YM2612Chip_init_def)
  show ?thesis
    using load_aliases_all_channels [OF ok len, of 3 "\<lambda>ch. ch\<lparr>feedback := 7\<rparr>"]
      load_zeros_fresh ok ch0
    by auto
qed

end
